theory Spec2Isabelle
  imports Main "HOL-Library.Log_Nat"
begin

section \<open>Python floats\<close>

text \<open>
  Every number of \<^verbatim>\<open>monitor_numbers.py\<close> is a Python \<^verbatim>\<open>float\<close>, an IEEE 754
  binary64 value.  A finite value is kept as the rational number it denotes; the
  negative zero, the two infinities and the NaN are constructors of their own.
  \<open>Fin 0\<close> is the positive zero.
\<close>

datatype pyfloat = Fin rat | NegZero | PInf | NInf | NaN

text \<open>The extended rational a float that is not a NaN denotes.\<close>

datatype xrat = MinusInf | Rat rat | PlusInf

fun ext :: "pyfloat \<Rightarrow> xrat option" where
  "ext (Fin q) = Some (Rat q)"
| "ext NegZero = Some (Rat 0)"
| "ext PInf = Some PlusInf"
| "ext NInf = Some MinusInf"
| "ext NaN = None"

fun x_lt :: "xrat \<Rightarrow> xrat \<Rightarrow> bool" where
  "x_lt MinusInf MinusInf = False"
| "x_lt MinusInf _ = True"
| "x_lt (Rat a) (Rat b) = (a < b)"
| "x_lt (Rat a) PlusInf = True"
| "x_lt (Rat a) MinusInf = False"
| "x_lt PlusInf _ = False"

text \<open>Python's \<^verbatim>\<open>a < b\<close> and \<^verbatim>\<open>a > b\<close> on floats: false as soon as one side is a NaN.\<close>

definition f_lt :: "pyfloat \<Rightarrow> pyfloat \<Rightarrow> bool" where
  "f_lt a b = (case (ext a, ext b) of (Some x, Some y) \<Rightarrow> x_lt x y | _ \<Rightarrow> False)"

definition f_gt :: "pyfloat \<Rightarrow> pyfloat \<Rightarrow> bool" where
  "f_gt a b = f_lt b a"

text \<open>Python's \<^verbatim>\<open>abs\<close> on a float clears the sign.\<close>

fun f_abs :: "pyfloat \<Rightarrow> pyfloat" where
  "f_abs (Fin q) = Fin \<bar>q\<bar>"
| "f_abs NegZero = Fin 0"
| "f_abs PInf = PInf"
| "f_abs NInf = PInf"
| "f_abs NaN = NaN"

subsection \<open>Rounding to binary64\<close>

definition pow2 :: "int \<Rightarrow> rat" where
  "pow2 e = (if 0 \<le> e then 2 ^ nat e else 1 / 2 ^ nat (- e))"

text \<open>\<open>ilog2 q\<close> is the integer part of the binary logarithm of a positive rational.\<close>

definition ilog2 :: "rat \<Rightarrow> int" where
  "ilog2 q = (case quotient_of q of (a, b) \<Rightarrow>
     (let e = bitlen a - bitlen b in if pow2 e \<le> q then e else e - 1))"

definition round_half_even :: "rat \<Rightarrow> int" where
  "round_half_even x =
     (let n = \<lfloor>x\<rfloor>; r = x - of_int n
      in if r < 1 / 2 then n
         else if 1 / 2 < r then n + 1
         else if even n then n else n + 1)"

text \<open>
  Round to nearest, ties to even, with 53 bits of precision, gradual underflow below
  \<open>2 ^ - 1022\<close> (the spacing there is \<open>2 ^ - 1074\<close>) and overflow to an infinity from
  \<open>2 ^ 1024\<close> on.  A result of magnitude zero keeps the sign of the exact value.
\<close>

definition round64 :: "rat \<Rightarrow> pyfloat" where
  "round64 q =
     (if q = 0 then Fin 0
      else
        (let a = \<bar>q\<bar>;
             e = max (ilog2 a) (- 1022);
             u = pow2 (e - 52);
             m = of_int (round_half_even (a / u)) * u
         in if pow2 1024 \<le> m then (if q < 0 then NInf else PInf)
            else if m = 0 then (if q < 0 then NegZero else Fin 0)
            else Fin (if q < 0 then - m else m)))"

text \<open>
  Python's \<^verbatim>\<open>a - b\<close> on floats.  A NaN operand, or the difference of two equal
  infinities, gives a NaN; an exact difference of zero is the positive zero, except
  that \<^verbatim>\<open>-0.0 - 0.0\<close> is \<^verbatim>\<open>-0.0\<close>; every other difference is rounded.
\<close>

definition f_sub :: "pyfloat \<Rightarrow> pyfloat \<Rightarrow> pyfloat" where
  "f_sub a b =
     (case (ext a, ext b) of
        (None, _) \<Rightarrow> NaN
      | (_, None) \<Rightarrow> NaN
      | (Some PlusInf, Some PlusInf) \<Rightarrow> NaN
      | (Some MinusInf, Some MinusInf) \<Rightarrow> NaN
      | (Some PlusInf, Some _) \<Rightarrow> PInf
      | (Some MinusInf, Some _) \<Rightarrow> NInf
      | (Some (Rat x), Some PlusInf) \<Rightarrow> NInf
      | (Some (Rat x), Some MinusInf) \<Rightarrow> PInf
      | (Some (Rat x), Some (Rat y)) \<Rightarrow>
          (if x = y then (if a = NegZero \<and> b = Fin 0 then NegZero else Fin 0)
           else round64 (x - y)))"

section \<open>Texts\<close>

text \<open>
  A Python \<^verbatim>\<open>str\<close> is a sequence of code points.  The operations on texts that
  the program uses are written for an arbitrary alphabet \<open>'c\<close>, with the test for
  whitespace as a parameter.  They are used at two alphabets: the \<open>char\<close> of HOL,
  which has eight bits, so that a \<open>string\<close> stands for a text whose code points are
  below 256 (among these the decimal digits are \<^verbatim>\<open>0\<close> to \<^verbatim>\<open>9\<close> only); and the
  integers, for the texts over all code points of Unicode.
\<close>

text \<open>\<^verbatim>\<open>s.replace(old, new)\<close> for two texts of one character each.\<close>

definition replace_char :: "'c \<Rightarrow> 'c \<Rightarrow> 'c list \<Rightarrow> 'c list" where
  "replace_char old new s = map (\<lambda>c. if c = old then new else c) s"

text \<open>
  \<^verbatim>\<open>str.split()\<close> without arguments: the maximal runs of characters that are not
  whitespace, in order; no empty string is produced.  \<open>sp\<close> tells the whitespace,
  \<open>run\<close> is the current run, reversed.
\<close>

fun split_run :: "('c \<Rightarrow> bool) \<Rightarrow> 'c list \<Rightarrow> 'c list \<Rightarrow> 'c list list" where
  "split_run sp run [] = (if run = [] then [] else [rev run])"
| "split_run sp run (c # cs) =
     (if sp c then (if run = [] then split_run sp [] cs else rev run # split_run sp [] cs)
      else split_run sp (c # run) cs)"

definition split_on :: "('c \<Rightarrow> bool) \<Rightarrow> 'c list \<Rightarrow> 'c list list" where
  "split_on sp s = split_run sp [] s"

subsection \<open>Texts over eight-bit characters\<close>

definition code_point :: "char \<Rightarrow> nat" where
  "code_point c = of_char c"

text \<open>
  \<^verbatim>\<open>str.isspace\<close> on one character below 256: the separators of \<^verbatim>\<open>str.split()\<close>
  there.
\<close>

definition is_space :: "char \<Rightarrow> bool" where
  "is_space c = (code_point c \<in> {9, 10, 11, 12, 13, 28, 29, 30, 31, 32, 133, 160})"

subsection \<open>The built-in \<^verbatim>\<open>float\<close> on a text\<close>

text \<open>
  \<^verbatim>\<open>float(token)\<close> strips surrounding whitespace, removes the underscores that
  stand between two digits (any other underscore is an error), reads an optional sign
  and then \<^verbatim>\<open>inf\<close>, \<^verbatim>\<open>infinity\<close> or \<^verbatim>\<open>nan\<close> in any case, or a decimal number
  with an optional fraction and exponent.  The decimal number is rounded correctly.
  \<open>None\<close> stands for the \<^verbatim>\<open>ValueError\<close>.
\<close>

definition is_digit :: "char \<Rightarrow> bool" where
  "is_digit c = (48 \<le> code_point c \<and> code_point c \<le> 57)"

definition digit_val :: "char \<Rightarrow> int" where
  "digit_val c = int (code_point c) - 48"

definition to_lower :: "char \<Rightarrow> char" where
  "to_lower c = (if 65 \<le> code_point c \<and> code_point c \<le> 90 then char_of (code_point c + 32) else c)"

text \<open>The whitespace \<^verbatim>\<open>float\<close> strips: the controls 28 to 31 are not part of it.\<close>

definition is_float_space :: "char \<Rightarrow> bool" where
  "is_float_space c = (code_point c \<in> {9, 10, 11, 12, 13, 32, 133, 160})"

definition strip :: "string \<Rightarrow> string" where
  "strip s = rev (dropWhile is_float_space (rev (dropWhile is_float_space s)))"

fun strip_underscores :: "char \<Rightarrow> string \<Rightarrow> string option" where
  "strip_underscores prev [] = (if prev = CHR ''_'' then None else Some [])"
| "strip_underscores prev (c # cs) =
     (if c = CHR ''_'' then (if is_digit prev then strip_underscores c cs else None)
      else if prev = CHR ''_'' \<and> \<not> is_digit c then None
      else map_option ((#) c) (strip_underscores c cs))"

definition digits_val :: "string \<Rightarrow> int" where
  "digits_val ds = foldl (\<lambda>n d. 10 * n + digit_val d) 0 ds"

definition pow10 :: "int \<Rightarrow> rat" where
  "pow10 e = (if 0 \<le> e then 10 ^ nat e else 1 / 10 ^ nat (- e))"

text \<open>The exponent part, after the digits of the number: empty, or \<^verbatim>\<open>e\<close>, a sign, digits.\<close>

fun parse_exponent :: "string \<Rightarrow> int option" where
  "parse_exponent [] = Some 0"
| "parse_exponent (c # cs) =
     (if c = CHR ''e'' \<or> c = CHR ''E'' then
        (let (neg, ds) = (case cs of
                            d # r \<Rightarrow> if d = CHR ''-'' then (True, r)
                                     else if d = CHR ''+'' then (False, r) else (False, cs)
                          | [] \<Rightarrow> (False, cs))
         in if ds = [] \<or> \<not> list_all is_digit ds then None
            else Some (if neg then - digits_val ds else digits_val ds))
      else None)"

definition parse_number :: "string \<Rightarrow> rat option" where
  "parse_number s =
     (let ip = takeWhile is_digit s; r1 = dropWhile is_digit s;
          (fp, r2) = (case r1 of
                        c # r \<Rightarrow> if c = CHR ''.'' then (takeWhile is_digit r, dropWhile is_digit r)
                                 else ([], r1)
                      | [] \<Rightarrow> ([], r1))
      in if ip = [] \<and> fp = [] then None
         else (case parse_exponent r2 of
                 None \<Rightarrow> None
               | Some e \<Rightarrow> Some (of_int (digits_val (ip @ fp)) * pow10 (e - int (length fp)))))"

definition py_float :: "string \<Rightarrow> pyfloat option" where
  "py_float s =
     (case strip_underscores (CHR 0x00) (strip s) of
        None \<Rightarrow> None
      | Some u \<Rightarrow>
          (let (neg, body) = (case u of
                                c # r \<Rightarrow> if c = CHR ''-'' then (True, r)
                                         else if c = CHR ''+'' then (False, r) else (False, u)
                              | [] \<Rightarrow> (False, u));
               low = map to_lower body
           in if low = ''inf'' \<or> low = ''infinity'' then Some (if neg then NInf else PInf)
              else if low = ''nan'' then Some NaN
              else (case parse_number body of
                      None \<Rightarrow> None
                    | Some q \<Rightarrow>
                        Some (if q = 0 then (if neg then NegZero else Fin 0)
                              else round64 (if neg then - q else q)))))"

subsection \<open>Texts over all code points\<close>

text \<open>
  A code point is kept as an integer (a negative one stands for no character: it is
  neither whitespace nor a digit).  \<^verbatim>\<open>str.isspace\<close> holds for 29 code points, 17
  of them from 256 on.
\<close>

definition unicode_space :: "int \<Rightarrow> bool" where
  "unicode_space c =
     (c \<in> {9, 10, 11, 12, 13, 28, 29, 30, 31, 32, 133, 160, 5760, 8192, 8193, 8194, 8195,
           8196, 8197, 8198, 8199, 8200, 8201, 8202, 8232, 8233, 8239, 8287, 12288})"

text \<open>
  The decimal digits of Unicode 14 (that of Python 3.11) come in 66 runs of ten code
  points, from the digit zero to the digit nine; these are the code points of the
  zeros.
\<close>

definition digit_bases :: "int list" where
  "digit_bases =
     [48, 1632, 1776, 1984, 2406, 2534, 2662, 2790, 2918, 3046, 3174, 3302, 3430, 3558, 3664,
      3792, 3872, 4160, 4240, 6112, 6160, 6470, 6608, 6784, 6800, 6992, 7088, 7232, 7248,
      42528, 43216, 43264, 43472, 43504, 43600, 44016, 65296, 66720, 68912, 69734, 69872,
      69942, 70096, 70384, 70736, 70864, 71248, 71360, 71472, 71904, 72016, 72784, 73040,
      73120, 92768, 92864, 93008, 120782, 120792, 120802, 120812, 120822, 123200, 123632,
      125264, 130032]"

definition unicode_decimal :: "int \<Rightarrow> int option" where
  "unicode_decimal c =
     (case filter (\<lambda>b. b \<le> c \<and> c < b + 10) digit_bases of
        [] \<Rightarrow> None
      | b # _ \<Rightarrow> Some (c - b))"

text \<open>
  Before it parses, \<^verbatim>\<open>float\<close> turns the text into ASCII: a code point below 127
  stays, whitespace from 127 on becomes a space, a decimal digit becomes the ASCII
  digit of its value, and anything else becomes a question mark, which no number
  contains.  The result is then read as a text of eight-bit characters is.
\<close>

definition to_ascii :: "int \<Rightarrow> char" where
  "to_ascii c =
     (if c < 0 then CHR ''?''
      else if c < 127 then char_of c
      else if unicode_space c then CHR '' ''
      else (case unicode_decimal c of
              Some d \<Rightarrow> char_of (48 + d)
            | None \<Rightarrow> CHR ''?''))"

definition unicode_float :: "int list \<Rightarrow> pyfloat option" where
  "unicode_float s = py_float (map to_ascii s)"

text \<open>The code points of a text of eight-bit characters.\<close>

definition code_points :: "string \<Rightarrow> int list" where
  "code_points s = map of_char s"

section \<open>The monitor\<close>

subsection \<open>Configuration, environment and effects\<close>

text \<open>
  The namespace \<^verbatim>\<open>parse_arguments\<close> returns.  \<^verbatim>\<open>--command\<close> and \<^verbatim>\<open>--file\<close> are
  mutually exclusive and one of them is required, so exactly one of \<open>command\<close> and
  \<open>file_path\<close> (the option \<^verbatim>\<open>file\<close>) is present; the other is \<^verbatim>\<open>None\<close>.  A path is kept as its text.
\<close>

record args =
  command :: "string option"
  file_path :: "string option"
  interval :: pyfloat
  min_value :: "pyfloat option"
  max_value :: "pyfloat option"
  threshold :: pyfloat

text \<open>The \<^verbatim>\<open>CompletedProcess\<close> of \<^verbatim>\<open>subprocess.run\<close>.\<close>

record completed =
  returncode :: int
  stdout :: string
  stderr :: string

datatype exn = FileNotFoundError | OSError string | AttributeError | Raised string

text \<open>
  What the operating system answers during one iteration of the loop: the outcome of
  running a shell command, of reading a file as text, and of sleeping.  Each may raise.
\<close>

record world =
  run :: "string \<Rightarrow> exn + completed"
  read_text :: "string \<Rightarrow> exn + string"
  sleep :: "pyfloat \<Rightarrow> exn option"

datatype message =
    CommandExited string int string
  | NoValueInOutput string
  | FileNotFound string
  | ReadFailed string string
  | NoValueInFile string

text \<open>
  The effects of the program, in the order they happen.  \<open>Print old new\<close> is the line
  \<^verbatim>\<open>Value changed: old -> new\<close> on the standard output (its time stamp is left out).
\<close>

datatype event =
    Exec string
  | Read string
  | Stderr message
  | Beep
  | Print pyfloat pyfloat
  | Sleep pyfloat

subsection \<open>Reading a sample\<close>

text \<open>
  The loop of lines 96 to 100, and again of lines 120 to 124: the first token that
  \<^verbatim>\<open>float\<close> accepts is returned, a token that raises \<^verbatim>\<open>ValueError\<close> is skipped.
\<close>

fun first_parsed :: "('c list \<Rightarrow> 'v option) \<Rightarrow> 'c list list \<Rightarrow> 'v option" where
  "first_parsed parse [] = None"
| "first_parsed parse (token # tokens) =
     (case parse token of Some v \<Rightarrow> Some v | None \<Rightarrow> first_parsed parse tokens)"

text \<open>
  The extraction of lines 96 to 100 for any alphabet: \<open>sp\<close> is \<^verbatim>\<open>str.isspace\<close>,
  \<open>comma\<close> and \<open>blank\<close> are the characters \<^verbatim>\<open>,\<close> and the space, \<open>parse\<close> is
  \<^verbatim>\<open>float\<close>, with \<open>None\<close> for its \<^verbatim>\<open>ValueError\<close>.
\<close>

definition extract_with ::
  "('c \<Rightarrow> bool) \<Rightarrow> 'c \<Rightarrow> 'c \<Rightarrow> ('c list \<Rightarrow> 'v option) \<Rightarrow> 'c list \<Rightarrow> 'v option" where
  "extract_with sp comma blank parse content =
     first_parsed parse (split_on sp (replace_char comma blank content))"

definition extract_value :: "string \<Rightarrow> pyfloat option" where
  "extract_value content = extract_with is_space (CHR '','') (CHR '' '') py_float content"

text \<open>The same extraction on a text over all code points; 44 is the comma, 32 the space.\<close>

definition extract_unicode :: "int list \<Rightarrow> pyfloat option" where
  "extract_unicode content = extract_with unicode_space 44 32 unicode_float content"

definition fetch_value_from_command :: "world \<Rightarrow> string \<Rightarrow> event list \<times> (exn + pyfloat option)" where
  "fetch_value_from_command w cmd =
     (case run w cmd of
        Inl e \<Rightarrow> ([Exec cmd], Inl e)
      | Inr process \<Rightarrow>
          if returncode process \<noteq> 0 then
            ([Exec cmd, Stderr (CommandExited cmd (returncode process) (stderr process))], Inr None)
          else
            (case extract_value (stdout process) of
               Some v \<Rightarrow> ([Exec cmd], Inr (Some v))
             | None \<Rightarrow> ([Exec cmd, Stderr (NoValueInOutput cmd)], Inr None)))"

text \<open>
  The parameter \<^verbatim>\<open>path\<close> is whatever \<^verbatim>\<open>args.file\<close> holds.  On \<^verbatim>\<open>None\<close> the
  attribute lookup \<^verbatim>\<open>path.read_text\<close> raises \<^verbatim>\<open>AttributeError\<close>, which neither
  \<^verbatim>\<open>except\<close> clause catches.
\<close>

definition fetch_value_from_file :: "world \<Rightarrow> string option \<Rightarrow> event list \<times> (exn + pyfloat option)" where
  "fetch_value_from_file w path =
     (case path of
        None \<Rightarrow> ([], Inl AttributeError)
      | Some p \<Rightarrow>
          (case read_text w p of
             Inl FileNotFoundError \<Rightarrow> ([Read p, Stderr (FileNotFound p)], Inr None)
           | Inl (OSError msg) \<Rightarrow> ([Read p, Stderr (ReadFailed p msg)], Inr None)
           | Inl e \<Rightarrow> ([Read p], Inl e)
           | Inr content \<Rightarrow>
               (case extract_value content of
                  Some v \<Rightarrow> ([Read p], Inr (Some v))
                | None \<Rightarrow> ([Read p, Stderr (NoValueInFile p)], Inr None))))"

subsection \<open>The range and the loop\<close>

definition value_in_range :: "pyfloat \<Rightarrow> pyfloat option \<Rightarrow> pyfloat option \<Rightarrow> bool" where
  "value_in_range v min_v max_v =
     (if (case min_v of None \<Rightarrow> False | Some m \<Rightarrow> f_lt v m) then False
      else if (case max_v of None \<Rightarrow> False | Some m \<Rightarrow> f_gt v m) then False
      else True)"

text \<open>\<^verbatim>\<open>if args.command:\<close> holds for a text that is present and not empty.\<close>

definition truthy :: "string option \<Rightarrow> bool" where
  "truthy c = (case c of None \<Rightarrow> False | Some s \<Rightarrow> s \<noteq> [])"

text \<open>Lines 162 to 165: the source is chosen by the truth value of \<^verbatim>\<open>args.command\<close>.\<close>

definition sample_source :: "args \<Rightarrow> world \<Rightarrow> event list \<times> (exn + pyfloat option)" where
  "sample_source a w =
     (if truthy (command a) then fetch_value_from_command w (the (command a))
      else fetch_value_from_file w (file_path a))"

text \<open>
  Lines 171 to 182, on a sample \<open>v\<close> and the cell \<^verbatim>\<open>last_value\<close>: the new content of
  the cell and the effects.
\<close>

definition detect_change :: "args \<Rightarrow> pyfloat option \<Rightarrow> pyfloat \<Rightarrow> pyfloat option \<times> event list" where
  "detect_change a last_value v =
     (if \<not> value_in_range v (min_value a) (max_value a) then (None, [])
      else (case last_value of
              None \<Rightarrow> (Some v, [])
            | Some b \<Rightarrow>
                if f_gt (f_abs (f_sub v b)) (threshold a) then (Some v, [Beep, Print b v])
                else (Some b, [])))"

definition do_sleep :: "args \<Rightarrow> world \<Rightarrow> 'a \<Rightarrow> event list \<times> (exn + 'a)" where
  "do_sleep a w x =
     ([Sleep (interval a)], case sleep w (interval a) of Some e \<Rightarrow> Inl e | None \<Rightarrow> Inr x)"

text \<open>One pass through the body of \<^verbatim>\<open>while True\<close> (lines 162 to 184).\<close>

definition monitor_iteration :: "args \<Rightarrow> world \<Rightarrow> pyfloat option \<Rightarrow> event list \<times> (exn + pyfloat option)" where
  "monitor_iteration a w last_value =
     (case sample_source a w of
        (evs, Inl e) \<Rightarrow> (evs, Inl e)
      | (evs, Inr None) \<Rightarrow>
          (case do_sleep a w last_value of (evs', r) \<Rightarrow> (evs @ evs', r))
      | (evs, Inr (Some v)) \<Rightarrow>
          (case detect_change a last_value v of
             (last_value', alerts) \<Rightarrow>
               (case do_sleep a w last_value' of (evs', r) \<Rightarrow> (evs @ alerts @ evs', r))))"

text \<open>
  The loop has no exit of its own.  It is run here for as many iterations as there are
  worlds in the list, one per iteration; it stops early when an exception escapes.
  The result is the content of \<^verbatim>\<open>last_value\<close> then, or the exception.
\<close>

fun monitor_loop :: "args \<Rightarrow> world list \<Rightarrow> pyfloat option \<Rightarrow> event list \<times> (exn + pyfloat option)" where
  "monitor_loop a [] last_value = ([], Inr last_value)"
| "monitor_loop a (w # ws) last_value =
     (case monitor_iteration a w last_value of
        (evs, Inl e) \<Rightarrow> (evs, Inl e)
      | (evs, Inr last_value') \<Rightarrow>
          (case monitor_loop a ws last_value' of (evs', r) \<Rightarrow> (evs @ evs', r)))"

definition monitor :: "args \<Rightarrow> world list \<Rightarrow> event list \<times> (exn + pyfloat option)" where
  "monitor a ws = monitor_loop a ws None"

text \<open>
  The change detector alone, fed a list of samples: the final content of the cell and,
  for each sample in turn, the effects it caused.
\<close>

fun feed :: "args \<Rightarrow> pyfloat option \<Rightarrow> pyfloat list \<Rightarrow> pyfloat option \<times> event list list" where
  "feed a last_value [] = (last_value, [])"
| "feed a last_value (v # vs) =
     (case detect_change a last_value v of
        (last_value', alerts) \<Rightarrow>
          (case feed a last_value' vs of (final, rest) \<Rightarrow> (final, alerts # rest)))"

text \<open>The effects that make an alert: the beep and the printed line.\<close>

fun is_alert :: "event \<Rightarrow> bool" where
  "is_alert Beep = True"
| "is_alert (Print old new) = True"
| "is_alert _ = False"

section \<open>The specification's reading\<close>

text \<open>
  The change detector as the specification words it: a state machine over
  \<open>no_baseline\<close> and \<open>baseline b\<close> whose transition returns the next state and the
  alert \<open>(old, new)\<close>, if one fires.
\<close>

datatype det_state = no_baseline | baseline pyfloat

definition detector_spec ::
  "pyfloat option \<Rightarrow> pyfloat option \<Rightarrow> pyfloat \<Rightarrow> det_state \<Rightarrow> pyfloat
     \<Rightarrow> det_state \<times> (pyfloat \<times> pyfloat) option" where
  "detector_spec min_v max_v thr s v =
     (if \<not> value_in_range v min_v max_v then (no_baseline, None)
      else if s = no_baseline then (baseline v, None)
      else (case s of
              baseline b \<Rightarrow>
                if f_gt (f_abs (f_sub v b)) thr then (baseline v, Some (b, v))
                else (baseline b, None)))"

text \<open>The cell \<^verbatim>\<open>last_value\<close> holds the state: \<^verbatim>\<open>None\<close> is \<open>no_baseline\<close>.\<close>

fun state_of :: "pyfloat option \<Rightarrow> det_state" where
  "state_of None = no_baseline"
| "state_of (Some b) = baseline b"

fun cell_of :: "det_state \<Rightarrow> pyfloat option" where
  "cell_of no_baseline = None"
| "cell_of (baseline b) = Some b"

text \<open>An alert is the beep followed by the printed line.\<close>

fun alert_events :: "(pyfloat \<times> pyfloat) option \<Rightarrow> event list" where
  "alert_events None = []"
| "alert_events (Some (old, new)) = [Beep, Print old new]"

text \<open>
  The value extractor as the specification words it: the text is cut at every
  character that is whitespace or a comma, the pieces that are not empty are the
  tokens, and the result is \<^verbatim>\<open>float\<close> of the first token it accepts.
\<close>

fun fields_on :: "('c \<Rightarrow> bool) \<Rightarrow> 'c list \<Rightarrow> 'c list list" where
  "fields_on delim [] = [[]]"
| "fields_on delim (c # cs) =
     (if delim c then [] # fields_on delim cs
      else (case fields_on delim cs of [] \<Rightarrow> [[c]] | f # fs \<Rightarrow> (c # f) # fs))"

definition tokens_on :: "('c \<Rightarrow> bool) \<Rightarrow> 'c list \<Rightarrow> 'c list list" where
  "tokens_on delim s = filter (\<lambda>t. t \<noteq> []) (fields_on delim s)"

definition extractor_spec_on ::
  "('c \<Rightarrow> bool) \<Rightarrow> ('c list \<Rightarrow> 'v option) \<Rightarrow> 'c list \<Rightarrow> 'v option" where
  "extractor_spec_on delim parse s =
     (case filter (\<lambda>t. parse t \<noteq> None) (tokens_on delim s) of
        [] \<Rightarrow> None
      | t # _ \<Rightarrow> parse t)"

text \<open>The reading at the eight-bit characters, and at all code points.\<close>

definition is_delim :: "char \<Rightarrow> bool" where
  "is_delim c = (is_space c \<or> c = CHR '','')"

definition tokens_spec :: "string \<Rightarrow> string list" where
  "tokens_spec s = tokens_on is_delim s"

definition extractor_spec :: "string \<Rightarrow> pyfloat option" where
  "extractor_spec s = extractor_spec_on is_delim py_float s"

definition unicode_delim :: "int \<Rightarrow> bool" where
  "unicode_delim c = (unicode_space c \<or> c = 44)"

text \<open>Python's \<^verbatim>\<open>a == b\<close> on floats: the two zeros are equal, a NaN equals nothing.\<close>

definition f_eq :: "pyfloat \<Rightarrow> pyfloat \<Rightarrow> bool" where
  "f_eq a b = (case (ext a, ext b) of (Some x, Some y) \<Rightarrow> x = y | _ \<Rightarrow> False)"

subsection \<open>Example configurations and environments\<close>

definition plain_args :: "pyfloat \<Rightarrow> args" where
  "plain_args thr =
     \<lparr>command = Some ''sensor'', file_path = None, interval = Fin 1,
      min_value = None, max_value = None, threshold = thr\<rparr>"

text \<open>An environment in which every command succeeds and prints \<open>out\<close>.\<close>

definition printing_world :: "string \<Rightarrow> world" where
  "printing_world out =
     \<lparr>run = (\<lambda>c. Inr \<lparr>returncode = 0, stdout = out, stderr = []\<rparr>),
      read_text = (\<lambda>p. Inr out),
      sleep = (\<lambda>t. None)\<rparr>"

text \<open>An environment in which every command exits with status 1 and no file exists.\<close>

definition failing_world :: world where
  "failing_world =
     \<lparr>run = (\<lambda>c. Inr \<lparr>returncode = 1, stdout = [], stderr = ''failed''\<rparr>),
      read_text = (\<lambda>p. Inl FileNotFoundError),
      sleep = (\<lambda>t. None)\<rparr>"

section \<open>Properties\<close>

subsection \<open>Facts about floats and texts\<close>

lemma f_lt_irrefl: "\<not> f_lt v v"
  by (cases v) (simp_all add: f_lt_def)

lemma f_eq_not_lt: "f_eq v m \<Longrightarrow> \<not> f_lt v m \<and> \<not> f_lt m v"
  by (cases v; cases m) (simp_all add: f_eq_def f_lt_def)

lemma cell_of_state_of: "cell_of (state_of c) = c"
  by (cases c) simp_all

lemma state_of_cell_of: "state_of (cell_of s) = s"
  by (cases s) simp_all

lemma fields_on_not_Nil: "fields_on delim s \<noteq> []"
  by (induction s) (auto split: list.splits)

text \<open>
  Splitting the text in which the commas were replaced gives the tokens of the
  specification, as soon as the replacement character is whitespace; the run in
  progress is the start of the first field.
\<close>

lemma split_run_fields:
  assumes "sp blank"
  shows "split_run sp r (replace_char comma blank s) =
     (case fields_on (\<lambda>c. sp c \<or> c = comma) s of
        f # fs \<Rightarrow> filter (\<lambda>t. t \<noteq> []) ((rev r @ f) # fs) | [] \<Rightarrow> [])"
proof (induction s arbitrary: r)
  case Nil
  then show ?case by (simp add: replace_char_def)
next
  case (Cons c cs)
  have IH: "\<And>r. split_run sp r (map (\<lambda>c. if c = comma then blank else c) cs) =
     (case fields_on (\<lambda>c. sp c \<or> c = comma) cs of
        f # fs \<Rightarrow> filter (\<lambda>t. t \<noteq> []) ((rev r @ f) # fs) | [] \<Rightarrow> [])"
    using Cons.IH by (simp add: replace_char_def)
  have rep: "sp (if c = comma then blank else c) = (sp c \<or> c = comma)"
    using assms by simp
  show ?case
  proof (cases "sp c \<or> c = comma")
    case True
    then have sp: "sp (if c = comma then blank else c)" using rep by blast
    show ?thesis using True sp fields_on_not_Nil[of "\<lambda>c. sp c \<or> c = comma" cs]
      by (cases "fields_on (\<lambda>c. sp c \<or> c = comma) cs") (auto simp: replace_char_def IH)
  next
    case False
    then have sp: "\<not> sp (if c = comma then blank else c)" using rep by blast
    show ?thesis using False sp fields_on_not_Nil[of "\<lambda>c. sp c \<or> c = comma" cs]
      by (cases "fields_on (\<lambda>c. sp c \<or> c = comma) cs") (auto simp: replace_char_def IH)
  qed
qed

lemma split_on_tokens:
  "sp blank \<Longrightarrow> split_on sp (replace_char comma blank s) = tokens_on (\<lambda>c. sp c \<or> c = comma) s"
  using fields_on_not_Nil[of "\<lambda>c. sp c \<or> c = comma" s]
  by (cases "fields_on (\<lambda>c. sp c \<or> c = comma) s")
     (simp_all add: split_on_def tokens_on_def split_run_fields)

lemma first_parsed_filter:
  "first_parsed parse ts =
     (case filter (\<lambda>t. parse t \<noteq> None) ts of [] \<Rightarrow> None | t # _ \<Rightarrow> parse t)"
  by (induction ts) (auto split: option.splits)

lemma first_parsed_None:
  "first_parsed parse ts = None \<longleftrightarrow> list_all (\<lambda>t. parse t = None) ts"
  by (induction ts) (auto split: option.splits)

lemma is_space_blank: "is_space (CHR '' '')"
  by (simp add: is_space_def code_point_def)

lemma unicode_space_blank: "unicode_space 32"
  by (simp add: unicode_space_def)

lemma is_delim_eq: "is_delim = (\<lambda>c. is_space c \<or> c = CHR '','')"
  by (rule ext) (simp add: is_delim_def)

lemma unicode_delim_eq: "unicode_delim = (\<lambda>c. unicode_space c \<or> c = 44)"
  by (rule ext) (simp add: unicode_delim_def)

text \<open>Evaluations on the texts the specification uses as examples.\<close>

lemma tokens_cpu_line:
  "tokens_spec ''cpu: 42.5%, mem 10'' = [''cpu:'', ''42.5%'', ''mem'', ''10'']"
  by code_simp

lemma py_float_examples:
  "py_float ''cpu:'' = None" "py_float ''42.5%'' = None" "py_float ''mem'' = None"
  "py_float ''10'' = Some (Fin 10)" "py_float ''42.5'' = Some (Fin (85 / 2))"
  by code_simp+

lemma extract_cpu_line: "extract_value ''cpu: 42.5%, mem 10'' = Some (Fin 10)"
  by code_simp

lemma extract_no_numbers: "extract_value ''no numbers here'' = None"
  by code_simp

lemma extract_ten: "extract_value ''10'' = Some (Fin 10)"
  by code_simp

lemma extract_nan: "extract_value ''nan'' = Some NaN"
  by code_simp

subsection \<open>The change detector\<close>

text \<open>The transition of the code is the transition of the specification.\<close>

lemma detect_change_refines:
  "detect_change a cell v =
     (case detector_spec (min_value a) (max_value a) (threshold a) (state_of cell) v of
        (s', al) \<Rightarrow> (cell_of s', alert_events al))"
  by (cases cell) (simp_all add: detect_change_def detector_spec_def)

text \<open>
  Claim C1.  In an iteration whose sample \<open>v\<close> was obtained, the cell and the alert
  are those of the transition of the specification on the state the cell held: out of
  the range the state becomes \<open>no_baseline\<close> without an alert; else from
  \<open>no_baseline\<close> it becomes \<open>baseline v\<close> without an alert; else from \<open>baseline b\<close>
  an alert \<open>(b, v)\<close> fires and the state becomes \<open>baseline v\<close> when
  \<open>abs (v - b) > threshold\<close>, and nothing changes otherwise.  The iteration then
  sleeps.
\<close>

theorem monitor_iteration_runs_detector:
  assumes "sample_source a w = (evs, Inr (Some v))"
  shows "monitor_iteration a w cell =
     (case (if \<not> value_in_range v (min_value a) (max_value a) then (no_baseline, None)
            else (case state_of cell of
                    no_baseline \<Rightarrow> (baseline v, None)
                  | baseline b \<Rightarrow>
                      if f_gt (f_abs (f_sub v b)) (threshold a) then (baseline v, Some (b, v))
                      else (baseline b, None))) of
        (s', al) \<Rightarrow>
          (evs @ alert_events al @ [Sleep (interval a)],
           case sleep w (interval a) of Some e \<Rightarrow> Inl e | None \<Rightarrow> Inr (cell_of s')))"
  using assms
  by (cases cell)
     (auto simp: monitor_iteration_def do_sleep_def detect_change_def split: option.splits)

lemma sample_printing_ten:
  "sample_source (plain_args thr) (printing_world ''10'') = ([Exec ''sensor''], Inr (Some (Fin 10)))"
  by (simp add: sample_source_def plain_args_def printing_world_def truthy_def
        fetch_value_from_command_def extract_ten)

lemma sub_10_7: "f_sub (Fin 10) (Fin 7) = Fin 3"
  by code_simp

theorem monitor_iteration_runs_detector_witness:
  "sample_source (plain_args (Fin 0)) (printing_world ''10'') = ([Exec ''sensor''], Inr (Some (Fin 10)))
   \<and> monitor_iteration (plain_args (Fin 0)) (printing_world ''10'') (Some (Fin 7)) =
       ([Exec ''sensor'', Beep, Print (Fin 7) (Fin 10), Sleep (Fin 1)], Inr (Some (Fin 10)))"
proof -
  have h: "sample_source (plain_args (Fin 0)) (printing_world ''10'') =
      ([Exec ''sensor''], Inr (Some (Fin 10)))"
    by (rule sample_printing_ten)
  have r: "value_in_range (Fin 10) None None" "f_gt (f_abs (Fin 3)) (Fin 0)"
    by (simp_all add: value_in_range_def f_gt_def f_lt_def)
  show ?thesis
    using h monitor_iteration_runs_detector [OF h, of "Some (Fin 7)"] r
    by (simp add: plain_args_def printing_world_def sub_10_7)
qed

subsection \<open>The value extractor\<close>

lemma extract_with_tokens:
  "sp blank \<Longrightarrow>
   extract_with sp comma blank parse s = first_parsed parse (tokens_on (\<lambda>c. sp c \<or> c = comma) s)"
  by (simp add: extract_with_def split_on_tokens)



text \<open>The same at the two alphabets in use: eight-bit characters, and all code points.\<close>

lemma extract_value_reading:
  "extract_value s = extractor_spec s
   \<and> (extract_value s = None \<longleftrightarrow> list_all (\<lambda>t. py_float t = None) (tokens_spec s))"
  unfolding extract_value_def extractor_spec_def tokens_spec_def is_delim_eq
    extractor_spec_on_def extract_with_tokens[of is_space "CHR '' ''", OF is_space_blank]
  using first_parsed_filter[of py_float "tokens_on (\<lambda>c. is_space c \<or> c = CHR '','') s"]
    first_parsed_None[of py_float "tokens_on (\<lambda>c. is_space c \<or> c = CHR '','') s"]
  by simp

lemma extract_unicode_reading:
  "extract_unicode s = extractor_spec_on unicode_delim unicode_float s
   \<and> (extract_unicode s = None
        \<longleftrightarrow> list_all (\<lambda>t. unicode_float t = None) (tokens_on unicode_delim s))"
  unfolding extract_unicode_def unicode_delim_eq
    extractor_spec_on_def extract_with_tokens[of unicode_space 32, OF unicode_space_blank]
  using first_parsed_filter[of unicode_float "tokens_on (\<lambda>c. unicode_space c \<or> c = 44) s"]
    first_parsed_None[of unicode_float "tokens_on (\<lambda>c. unicode_space c \<or> c = 44) s"]
  by simp

text \<open>
  Over all code points: the ideographic space 12288 separates tokens, and the
  Arabic-Indic digits 1636 and 1634 are read as 42.  On a text of eight-bit characters
  the two extractions agree, here on the example of the specification.
\<close>

lemma extract_unicode_examples:
  "tokens_on unicode_delim [120, 12288, 1636, 1634, 8195, 55] = [[120], [1636, 1634], [55]]"
  "unicode_float [1636, 1634] = Some (Fin 42)"
  "extract_unicode [120, 12288, 1636, 1634, 8195, 55] = Some (Fin 42)"
  "extract_unicode (code_points ''cpu: 42.5%, mem 10'') = Some (Fin 10)"
  "extract_unicode (code_points ''no numbers here'') = None"
  by code_simp+

text \<open>
  Claim C3, as the specification states it, fails: on \<^verbatim>\<open>cpu: 42.5%, mem 10\<close> the
  token \<^verbatim>\<open>42.5%\<close> is not accepted by \<^verbatim>\<open>float\<close>, so the extractor does not return
  42.5.
\<close>

theorem extract_value_cpu_counterexample:
  "py_float ''42.5'' = Some (Fin (85 / 2))
   \<and> extract_value ''cpu: 42.5%, mem 10'' \<noteq> Some (Fin (85 / 2))"
  by (simp add: py_float_examples extract_cpu_line)

text \<open>
  Claim C3, amended.  On \<^verbatim>\<open>cpu: 42.5%, mem 10\<close> the tokens are \<^verbatim>\<open>cpu:\<close>,
  \<^verbatim>\<open>42.5%\<close>, \<^verbatim>\<open>mem\<close> and \<^verbatim>\<open>10\<close>; the first three are rejected and the extractor
  returns 10.0.  On \<^verbatim>\<open>no numbers here\<close> it finds nothing.
\<close>

theorem extract_value_examples:
  "tokens_spec ''cpu: 42.5%, mem 10'' = [''cpu:'', ''42.5%'', ''mem'', ''10'']
   \<and> py_float ''cpu:'' = None \<and> py_float ''42.5%'' = None \<and> py_float ''mem'' = None
   \<and> extract_value ''cpu: 42.5%, mem 10'' = Some (Fin 10)
   \<and> extract_value ''no numbers here'' = None"
  by (simp add: tokens_cpu_line py_float_examples extract_cpu_line extract_no_numbers)

subsection \<open>The range gate\<close>

text \<open>
  Claim C4.  \<open>value_in_range\<close> is false when the lower bound is present and the
  value is below it, false when the upper bound is present and the value is above
  it, and true otherwise; it is true without bounds; a value equal to a bound is not
  rejected by that bound.
\<close>

theorem value_in_range_cases:
  "value_in_range v mn mx =
     (\<not> (\<exists>m. mn = Some m \<and> f_lt v m) \<and> \<not> (\<exists>m. mx = Some m \<and> f_gt v m))
   \<and> value_in_range v None None
   \<and> (f_eq v m \<longrightarrow> value_in_range v (Some m) mx = value_in_range v None mx)
   \<and> (f_eq v m \<longrightarrow> value_in_range v mn (Some m) = value_in_range v mn None)
   \<and> (f_eq v m \<longrightarrow> value_in_range v (Some m) (Some m))"
  using f_eq_not_lt[of v m]
  by (auto simp: value_in_range_def f_gt_def split: option.splits)

theorem value_in_range_cases_witness:
  "f_eq (Fin 5) (Fin 5)
   \<and> value_in_range (Fin 5) None None
   \<and> \<not> value_in_range (Fin 5) (Some (Fin 10)) None
   \<and> \<not> value_in_range (Fin 5) None (Some (Fin 3))
   \<and> value_in_range (Fin 5) (Some (Fin 3)) (Some (Fin 10))
   \<and> value_in_range (Fin 5) (Some (Fin 5)) (Some (Fin 10))
   \<and> value_in_range (Fin 5) (Some (Fin 3)) (Some (Fin 5))
   \<and> value_in_range (Fin 5) (Some (Fin 5)) (Some (Fin 5))"
  using value_in_range_cases [of "Fin 5" None None "Fin 5"]
        value_in_range_cases [of "Fin 5" "Some (Fin 10)" None "Fin 5"]
        value_in_range_cases [of "Fin 5" None "Some (Fin 3)" "Fin 5"]
        value_in_range_cases [of "Fin 5" "Some (Fin 3)" "Some (Fin 10)" "Fin 5"]
        value_in_range_cases [of "Fin 5" "Some (Fin 3)" "Some (Fin 5)" "Fin 5"]
        value_in_range_cases [of "Fin 5" None "Some (Fin 10)" "Fin 5"]
  by (simp add: f_eq_def f_lt_def f_gt_def)

text \<open>
  Claim C8, as the specification states it, fails: a NaN sample passes both
  comparisons, so the inverted range from 10 down to 5 accepts it.  The text
  \<^verbatim>\<open>nan\<close> is such a sample.
\<close>

theorem inverted_range_nan_counterexample:
  "extract_value ''nan'' = Some NaN
   \<and> f_gt (Fin 10) (Fin 5)
   \<and> value_in_range NaN (Some (Fin 10)) (Some (Fin 5))"
  by (simp add: extract_nan value_in_range_def f_gt_def f_lt_def)

text \<open>
  Claim C8, amended.  A range whose lower bound is above its upper bound rejects
  every value that is not a NaN.
\<close>

theorem inverted_range_rejects:
  "v \<noteq> NaN \<Longrightarrow> f_gt mn mx \<Longrightarrow> \<not> value_in_range v (Some mn) (Some mx)"
  by (cases v; cases mn; cases mx) (auto simp: value_in_range_def f_gt_def f_lt_def)

theorem inverted_range_rejects_witness:
  "Fin 7 \<noteq> NaN \<and> f_gt (Fin 10) (Fin 5) \<and> \<not> value_in_range (Fin 7) (Some (Fin 10)) (Some (Fin 5))"
proof -
  have h: "Fin 7 \<noteq> NaN" "f_gt (Fin 10) (Fin 5)"
    by (simp_all add: f_gt_def f_lt_def)
  show ?thesis
    using h inverted_range_rejects [OF h] by simp
qed

subsection \<open>The loop and the source\<close>

text \<open>
  The acquisition failures: a command that exits with a status other than zero, a
  file that is missing or cannot be read, and an output or content without a token
  that \<^verbatim>\<open>float\<close> accepts.  Each yields no sample, and no exception.
\<close>

lemma command_failures_no_sample:
  assumes "run w cmd = Inr p"
    and "returncode p \<noteq> 0 \<or> extract_value (stdout p) = None"
  shows "snd (fetch_value_from_command w cmd) = Inr None"
  using assms by (auto simp: fetch_value_from_command_def)

lemma file_failures_no_sample:
  assumes "read_text w p = Inl FileNotFoundError \<or> (\<exists>msg. read_text w p = Inl (OSError msg))
           \<or> (\<exists>content. read_text w p = Inr content \<and> extract_value content = None)"
  shows "snd (fetch_value_from_file w (Some p)) = Inr None"
  using assms by (auto simp: fetch_value_from_file_def)

text \<open>
  Claim C9.  An iteration whose source yields no sample sleeps and leaves
  \<^verbatim>\<open>last_value\<close> as it was, whatever it held; an iteration whose sample is out of
  the range resets it to \<^verbatim>\<open>None\<close>.  (When the sleep raises, the exception ends the
  loop.)
\<close>

theorem failed_acquisition_keeps_last_value:
  "(sample_source a w = (evs, Inr None) \<longrightarrow>
      monitor_iteration a w cell =
        (evs @ [Sleep (interval a)],
         case sleep w (interval a) of Some e \<Rightarrow> Inl e | None \<Rightarrow> Inr cell))
   \<and> (sample_source a w = (evs, Inr (Some v)) \<and> \<not> value_in_range v (min_value a) (max_value a) \<longrightarrow>
      monitor_iteration a w cell =
        (evs @ [Sleep (interval a)],
         case sleep w (interval a) of Some e \<Rightarrow> Inl e | None \<Rightarrow> Inr None))"
  by (auto simp: monitor_iteration_def do_sleep_def detect_change_def split: option.splits)

lemma sample_failing_world:
  "sample_source (plain_args thr) failing_world =
     ([Exec ''sensor'', Stderr (CommandExited ''sensor'' 1 ''failed'')], Inr None)"
  by (simp add: sample_source_def plain_args_def failing_world_def truthy_def
        fetch_value_from_command_def)

theorem failed_acquisition_keeps_last_value_witness:
  "sample_source (plain_args (Fin 0)) failing_world =
     ([Exec ''sensor'', Stderr (CommandExited ''sensor'' 1 ''failed'')], Inr None)
   \<and> monitor_iteration (plain_args (Fin 0)) failing_world (Some (Fin 7)) =
       ([Exec ''sensor'', Stderr (CommandExited ''sensor'' 1 ''failed''), Sleep (Fin 1)],
        Inr (Some (Fin 7)))
   \<and> sample_source ((plain_args (Fin 0))\<lparr>min_value := Some (Fin 20)\<rparr>) (printing_world ''10'') =
       ([Exec ''sensor''], Inr (Some (Fin 10)))
   \<and> \<not> value_in_range (Fin 10) (Some (Fin 20)) None
   \<and> monitor_iteration ((plain_args (Fin 0))\<lparr>min_value := Some (Fin 20)\<rparr>) (printing_world ''10'')
         (Some (Fin 7)) =
       ([Exec ''sensor'', Sleep (Fin 1)], Inr None)"
proof -
  have h1: "sample_source (plain_args (Fin 0)) failing_world =
     ([Exec ''sensor'', Stderr (CommandExited ''sensor'' 1 ''failed'')], Inr None)"
    by (rule sample_failing_world)
  have h2: "sample_source ((plain_args (Fin 0))\<lparr>min_value := Some (Fin 20)\<rparr>) (printing_world ''10'') =
       ([Exec ''sensor''], Inr (Some (Fin 10)))"
    by (simp add: sample_source_def plain_args_def printing_world_def truthy_def
        fetch_value_from_command_def extract_ten)
  have h3: "\<not> value_in_range (Fin 10) (Some (Fin 20)) None"
    by (simp add: value_in_range_def f_lt_def)
  show ?thesis
    using h1 h2 h3
      failed_acquisition_keeps_last_value
        [of "plain_args (Fin 0)" failing_world
            "[Exec ''sensor'', Stderr (CommandExited ''sensor'' 1 ''failed'')]" "Some (Fin 7)"]
      failed_acquisition_keeps_last_value
        [of "(plain_args (Fin 0))\<lparr>min_value := Some (Fin 20)\<rparr>" "printing_world ''10''"
            "[Exec ''sensor'']" "Some (Fin 7)" "Fin 10"]
    by (simp add: plain_args_def failing_world_def printing_world_def)
qed

text \<open>
  Claim C10.  With an empty command text and no file path, the iteration runs no
  command and reads no file: the empty text is false, the file reader is called with
  \<^verbatim>\<open>None\<close>, and the \<^verbatim>\<open>AttributeError\<close> it meets is not caught, so it ends the
  loop in its first iteration, before any effect.
\<close>

theorem empty_command_reads_absent_path:
  assumes "command a = Some []" and "file_path a = None"
  shows "sample_source a w = fetch_value_from_file w None
     \<and> monitor_iteration a w cell = ([], Inl AttributeError)
     \<and> monitor a (w # ws) = ([], Inl AttributeError)"
  using assms
  by (simp add: monitor_def monitor_iteration_def sample_source_def truthy_def
        fetch_value_from_file_def)

theorem empty_command_reads_absent_path_witness:
  "command ((plain_args (Fin 0))\<lparr>command := Some []\<rparr>) = Some []
   \<and> file_path ((plain_args (Fin 0))\<lparr>command := Some []\<rparr>) = None
   \<and> monitor_iteration ((plain_args (Fin 0))\<lparr>command := Some []\<rparr>) (printing_world ''10'') None =
        ([], Inl AttributeError)
   \<and> monitor ((plain_args (Fin 0))\<lparr>command := Some []\<rparr>) [printing_world ''10'', failing_world] =
        ([], Inl AttributeError)"
proof -
  have h: "command ((plain_args (Fin 0))\<lparr>command := Some []\<rparr>) = Some []"
    "file_path ((plain_args (Fin 0))\<lparr>command := Some []\<rparr>) = None"
    by (simp_all add: plain_args_def)
  show ?thesis
    using h empty_command_reads_absent_path [OF h, of "printing_world ''10''" None "[failing_world]"]
    by simp
qed

subsection \<open>Sequences of samples\<close>

lemma feed_append:
  "feed a cell (xs @ ys) =
     (case feed a cell xs of (c, es) \<Rightarrow> (case feed a c ys of (c', es') \<Rightarrow> (c', es @ es')))"
  by (induction xs arbitrary: cell) (auto split: prod.splits)

lemma feed_out_of_range:
  "\<forall>x\<in>set us. \<not> value_in_range x (min_value a) (max_value a) \<Longrightarrow>
   feed a cell us = (if us = [] then cell else None, replicate (length us) [])"
  by (induction us arbitrary: cell) (auto simp: detect_change_def)

text \<open>A float minus itself is the positive zero, or a NaN when it is not finite.\<close>

lemma sub_self: "f_abs (f_sub v v) = Fin 0 \<or> f_abs (f_sub v v) = NaN"
  by (cases v) (simp_all add: f_sub_def)

lemma no_alert_on_same:
  "\<not> f_lt thr (Fin 0) \<Longrightarrow> \<not> f_gt (f_abs (f_sub v v)) thr"
  using sub_self[of v] by (auto simp: f_gt_def f_lt_def split: option.splits)

lemma feed_same:
  "value_in_range v (min_value a) (max_value a) \<Longrightarrow> \<not> f_lt (threshold a) (Fin 0) \<Longrightarrow>
   feed a (Some v) (replicate n v) = (Some v, replicate n [])"
  by (induction n) (auto simp: detect_change_def no_alert_on_same)

text \<open>
  The decimal literals of the example: \<^verbatim>\<open>10.05\<close>, \<^verbatim>\<open>10.4\<close> and \<^verbatim>\<open>0.3\<close> denote
  the floats nearest to them, and the two differences compare with the threshold as
  the decimals do.
\<close>

lemma example_literals:
  "py_float ''10'' = Some (Fin 10)" "py_float ''10.05'' = Some (round64 (201 / 20))"
  "py_float ''10.4'' = Some (round64 (52 / 5))" "py_float ''0.3'' = Some (round64 (3 / 10))"
  by code_simp+

lemma example_differences:
  "\<not> f_gt (f_abs (f_sub (round64 (201 / 20)) (Fin 10))) (round64 (3 / 10))"
  "f_gt (f_abs (f_sub (round64 (52 / 5)) (Fin 10))) (round64 (3 / 10))"
  by code_simp+

text \<open>
  Claim C5.  From no baseline, with threshold 0.3, the in-range samples 10, 10.05 and
  10.4 give exactly one alert, from 10 to 10.4: the first sample becomes the baseline
  silently, the second causes nothing and leaves the baseline at 10, the third fires
  the alert against the baseline 10 and becomes the baseline.
\<close>

theorem feed_example_sequence:
  assumes "threshold a = round64 (3 / 10)"
    and "value_in_range (Fin 10) (min_value a) (max_value a)"
    and "value_in_range (round64 (201 / 20)) (min_value a) (max_value a)"
    and "value_in_range (round64 (52 / 5)) (min_value a) (max_value a)"
  shows "feed a None [Fin 10] = (Some (Fin 10), [[]])
   \<and> feed a None [Fin 10, round64 (201 / 20)] = (Some (Fin 10), [[], []])
   \<and> feed a None [Fin 10, round64 (201 / 20), round64 (52 / 5)] =
       (Some (round64 (52 / 5)), [[], [], [Beep, Print (Fin 10) (round64 (52 / 5))]])"
  using assms by (simp add: detect_change_def example_differences)

theorem feed_example_sequence_witness:
  "threshold (plain_args (round64 (3 / 10))) = round64 (3 / 10)
   \<and> value_in_range (Fin 10) None None
   \<and> feed (plain_args (round64 (3 / 10))) None [Fin 10, round64 (201 / 20), round64 (52 / 5)] =
       (Some (round64 (52 / 5)), [[], [], [Beep, Print (Fin 10) (round64 (52 / 5))]])"
proof -
  have h: "threshold (plain_args (round64 (3 / 10))) = round64 (3 / 10)"
    "value_in_range (Fin 10) (min_value (plain_args (round64 (3 / 10))))
       (max_value (plain_args (round64 (3 / 10))))"
    "value_in_range (round64 (201 / 20)) (min_value (plain_args (round64 (3 / 10))))
       (max_value (plain_args (round64 (3 / 10))))"
    "value_in_range (round64 (52 / 5)) (min_value (plain_args (round64 (3 / 10))))
       (max_value (plain_args (round64 (3 / 10))))"
    by (simp_all add: plain_args_def value_in_range_def)
  show ?thesis
    using h feed_example_sequence [OF h] by (simp add: plain_args_def)
qed

text \<open>
  Claim C6.  Whatever was fed before, a sample out of the range leaves no baseline;
  and after it, and after any further samples out of the range, the first sample in
  the range causes no effect and becomes the baseline, whatever baseline was held
  before the range was left.
\<close>

theorem reentry_is_silent:
  assumes "\<not> value_in_range u (min_value a) (max_value a)"
    and "\<forall>x\<in>set us. \<not> value_in_range x (min_value a) (max_value a)"
    and "value_in_range v (min_value a) (max_value a)"
  shows "fst (feed a cell (pre @ [u])) = None
     \<and> feed a cell (pre @ u # us @ [v]) =
         (Some v, snd (feed a cell pre) @ [] # replicate (length us) [] @ [[]])"
proof -
  have 1: "feed a c [u] = (None, [[]])" for c
    using assms(1) by (simp add: detect_change_def)
  have 2: "feed a None us = (None, replicate (length us) [])"
    using feed_out_of_range[OF assms(2), of None] by simp
  have 3: "feed a None [v] = (Some v, [[]])"
    using assms(3) by (simp add: detect_change_def)
  have 4: "feed a c (u # us @ [v]) = (Some v, [] # replicate (length us) [] @ [[]])" for c
    using 1[of c] 2 3 feed_append[of a None us "[v]"]
    by (simp add: detect_change_def assms(1))
  show ?thesis
    using 1 4 by (simp add: feed_append split: prod.splits)
qed

theorem reentry_is_silent_witness:
  "\<not> value_in_range (Fin 50) (Some (Fin 0)) (Some (Fin 10))
   \<and> \<not> value_in_range (Fin 60) (Some (Fin 0)) (Some (Fin 10))
   \<and> value_in_range (Fin 9) (Some (Fin 0)) (Some (Fin 10))
   \<and> feed ((plain_args (Fin 0))\<lparr>min_value := Some (Fin 0), max_value := Some (Fin 10)\<rparr>)
        (Some (Fin 1)) [Fin 1, Fin 50, Fin 60, Fin 9] = (Some (Fin 9), [[], [], [], []])"
proof -
  let ?a = "(plain_args (Fin 0))\<lparr>min_value := Some (Fin 0), max_value := Some (Fin 10)\<rparr>"
  have h: "\<not> value_in_range (Fin 50) (min_value ?a) (max_value ?a)"
    "\<forall>x\<in>set [Fin 60]. \<not> value_in_range x (min_value ?a) (max_value ?a)"
    "value_in_range (Fin 9) (min_value ?a) (max_value ?a)"
    by (simp_all add: plain_args_def value_in_range_def f_lt_def f_gt_def)
  have p: "feed ?a (Some (Fin 1)) [Fin 1] = (Some (Fin 1), [[]])"
    by (simp add: detect_change_def plain_args_def value_in_range_def f_sub_def f_lt_def f_gt_def)
  show ?thesis
    using h p reentry_is_silent [OF h, of "Some (Fin 1)" "[Fin 1]"]
    by (simp add: plain_args_def)
qed

text \<open>
  Claim C7.  The configuration expects a threshold that is not negative.  With such a
  threshold, repeated identical samples of a value in the range cause no effect: the
  first becomes the baseline silently, and every further one leaves the cell as it
  is, without an alert.
\<close>

theorem repeated_samples_are_silent:
  assumes "value_in_range v (min_value a) (max_value a)" and "\<not> f_lt (threshold a) (Fin 0)"
  shows "feed a None (replicate (Suc n) v) = (Some v, replicate (Suc n) [])
     \<and> feed a (Some v) (replicate n v) = (Some v, replicate n [])"
  using assms by (simp add: feed_same detect_change_def)

theorem repeated_samples_are_silent_witness:
  "value_in_range (Fin 5) None None \<and> \<not> f_lt (Fin 0) (Fin 0)
   \<and> feed (plain_args (Fin 0)) None [Fin 5, Fin 5, Fin 5] = (Some (Fin 5), [[], [], []])"
proof -
  have h: "value_in_range (Fin 5) (min_value (plain_args (Fin 0))) (max_value (plain_args (Fin 0)))"
    "\<not> f_lt (threshold (plain_args (Fin 0))) (Fin 0)"
    by (simp_all add: plain_args_def value_in_range_def f_lt_def)
  have r: "replicate (Suc 2) (Fin 5) = [Fin 5, Fin 5, Fin 5]"
    by (simp add: numeral_2_eq_2)
  show ?thesis
    using h repeated_samples_are_silent [OF h, of 2] r
    by (simp add: plain_args_def numeral_2_eq_2)
qed

subsection \<open>The loop on a sequence of samples\<close>

text \<open>
  The loop, run on worlds in which a sample is obtained and the sleep returns, leaves
  in \<^verbatim>\<open>last_value\<close> what the change detector leaves when fed these samples, and
  its alerts are those of the detector, in order.
\<close>

lemma sample_source_no_alert: "sample_source a w = (evs, r) \<Longrightarrow> filter is_alert evs = []"
  by (auto simp: sample_source_def fetch_value_from_command_def fetch_value_from_file_def
      split: if_splits sum.splits option.splits exn.splits)

lemma detect_change_alerts: "detect_change a cell v = (cell', al) \<Longrightarrow> filter is_alert al = al"
  by (auto simp: detect_change_def split: if_splits option.splits)

lemma monitor_iteration_sample:
  assumes "sample_source a w = (evs, Inr (Some v))" and "sleep w (interval a) = None"
  shows "snd (monitor_iteration a w cell) = Inr (fst (detect_change a cell v))
     \<and> filter is_alert (fst (monitor_iteration a w cell)) = snd (detect_change a cell v)"
  using assms sample_source_no_alert[OF assms(1)]
    detect_change_alerts[of a cell v "fst (detect_change a cell v)" "snd (detect_change a cell v)"]
  by (simp add: monitor_iteration_def do_sleep_def case_prod_unfold)

lemma monitor_loop_feed:
  assumes "list_all2 (\<lambda>w v. (\<exists>evs. sample_source a w = (evs, Inr (Some v)))
                            \<and> sleep w (interval a) = None) ws vs"
  shows "snd (monitor_loop a ws cell) = Inr (fst (feed a cell vs))
     \<and> filter is_alert (fst (monitor_loop a ws cell)) = concat (snd (feed a cell vs))"
  using assms
proof (induction ws vs arbitrary: cell rule: list_all2_induct)
  case Nil
  then show ?case by simp
next
  case (Cons w ws v vs)
  from Cons.hyps(1) obtain evs where s: "sample_source a w = (evs, Inr (Some v))"
    and sl: "sleep w (interval a) = None" by blast
  note it = monitor_iteration_sample[OF s sl, of cell]
  obtain ev1 where m: "monitor_iteration a w cell = (ev1, Inr (fst (detect_change a cell v)))"
    using it by (cases "monitor_iteration a w cell") auto
  have f: "filter is_alert ev1 = snd (detect_change a cell v)"
    using it m by simp
  show ?case
    using Cons.IH[of "fst (detect_change a cell v)"] m f
    by (simp add: case_prod_unfold)
qed

text \<open>
  The example of the specification run through the whole loop: a command that prints
  10, then 10.05, then 10.4, with the threshold 0.3 and no bounds.
\<close>

lemma sample_printing:
  "extract_value out = Some v \<Longrightarrow>
   sample_source (plain_args thr) (printing_world out) = ([Exec ''sensor''], Inr (Some v))"
  by (simp add: sample_source_def plain_args_def printing_world_def truthy_def
        fetch_value_from_command_def)

lemma extract_examples:
  "extract_value ''10.05'' = Some (round64 (201 / 20))"
  "extract_value ''10.4'' = Some (round64 (52 / 5))"
  by code_simp+

lemma monitor_example_run:
  "monitor (plain_args (round64 (3 / 10)))
     [printing_world ''10'', printing_world ''10.05'', printing_world ''10.4''] =
   ([Exec ''sensor'', Sleep (Fin 1), Exec ''sensor'', Sleep (Fin 1),
     Exec ''sensor'', Beep, Print (Fin 10) (round64 (52 / 5)), Sleep (Fin 1)],
    Inr (Some (round64 (52 / 5))))"
proof -
  let ?a = "plain_args (round64 (3 / 10))"
  have r: "value_in_range x (min_value ?a) (max_value ?a)" for x
    by (simp add: plain_args_def value_in_range_def)
  have t: "threshold ?a = round64 (3 / 10)" "interval ?a = Fin 1"
    by (simp_all add: plain_args_def)
  have sl: "sleep (printing_world out) x = None" for out x
    by (simp add: printing_world_def)
  show ?thesis
    by (simp add: monitor_def monitor_iteration_def do_sleep_def detect_change_def
        sample_printing extract_ten extract_examples r t sl example_differences)
qed

end
